theory Spec2Isabelle
  imports Main
begin

section \<open>The relational store\<close>

text \<open>
  The storage layer (\<^verbatim>\<open>DatabaseStorage\<close> in \<^verbatim>\<open>storage.ts\<close>) is a set of
  asynchronous methods over tables declared in \<^verbatim>\<open>schema.ts\<close>. Each method is
  modelled as a function from the store to a result and the new store; calls are applied
  one after the other, so interleavings of concurrent requests are not part of the model.

  A table is the list of its rows in insertion order. \<^verbatim>\<open>serial\<close> primary keys come
  from a per-table sequence kept in the store. Columns keep their names behind a prefix for
  the table. The \<^verbatim>\<open>createdAt\<close>/\<^verbatim>\<open>updatedAt\<close> stamps are left out: no
  modelled method reads them. JavaScript numbers are \<^typ>\<open>int\<close>, and so are the values of
  \<^verbatim>\<open>integer\<close> columns; the store's check that a stock stays within 32 bits is part of
  the stock update below, which raises when it fails. A lost connection is outside the model.
\<close>

text \<open>
  A rejected statement raises in the source; a method then returns \<open>Inl\<close> of the error
  together with the store as the statements before it left it.
\<close>

datatype store_error = IntegerOutOfRange

fun returned :: "store_error + 'a \<Rightarrow> bool" where
  "returned (Inl e) = False"
| "returned (Inr v) = True"

text \<open>The range of the store's \<^verbatim>\<open>integer\<close> type.\<close>

definition int4 :: "int \<Rightarrow> bool" where
  "int4 n = (- 2147483648 \<le> n \<and> n \<le> 2147483647)"

record product =
  p_id :: int
  p_name :: string
  p_stock :: int
  p_minStock :: "int option"
  p_isActive :: bool

text \<open>
  Vendors, distributors, retailers, billed entities and suppliers share the columns the
  storage methods below touch.
\<close>

record partner =
  e_id :: int
  e_name :: string
  e_isApproved :: bool
  e_isActive :: bool

text \<open>
  The \<^verbatim>\<open>items\<close> column is \<^verbatim>\<open>jsonb\<close>, documented as an array of items with
  product id and quantity; the methods test \<^verbatim>\<open>Array.isArray\<close> before walking it.
  An element is an object with a numeric \<^verbatim>\<open>productId\<close> and \<^verbatim>\<open>quantity\<close>; the
  price and tax fields, which no storage method reads, are left out.
\<close>

record line_item =
  productId :: int
  quantity :: int

datatype jsonb_items = ItemArray "line_item list" | NotArray

record purchase =
  pu_id :: int
  pu_supplierId :: int
  pu_items :: jsonb_items

record insertPurchase =
  ip_supplierId :: int
  ip_items :: jsonb_items

record sale =
  sa_id :: int
  sa_salespersonId :: int
  sa_items :: jsonb_items

record insertSale =
  is_salespersonId :: int
  is_items :: jsonb_items

record invoiceTemplate =
  t_id :: int
  t_name :: string
  t_template :: string
  t_isDefault :: bool

record insertInvoiceTemplate =
  it_name :: string
  it_template :: string
  it_isDefault :: "bool option"

text \<open>A partial update: \<open>None\<close> is a key that is absent (or \<^verbatim>\<open>undefined\<close>).\<close>

record invoiceTemplateUpdate =
  tu_name :: "string option"
  tu_template :: "string option"
  tu_isDefault :: "bool option"

record approvalRequest =
  ar_id :: int
  ar_entityType :: string
  ar_entityId :: int
  ar_requestedBy :: int
  ar_status :: string
  ar_notes :: "string option"

text \<open>
  The static type \<^verbatim>\<open>InsertApprovalRequest\<close> has no \<^verbatim>\<open>status\<close> key;
  \<open>ia_status\<close> is the value of such a key when a caller passes one all the same.
\<close>

record insertApprovalRequest =
  ia_entityType :: string
  ia_entityId :: int
  ia_requestedBy :: int
  ia_notes :: "string option"
  ia_status :: "string option"

text \<open>
  \<^verbatim>\<open>Partial<ApprovalRequest>\<close> without the primary key and the stamps, which no
  caller sets. \<open>au_notes\<close> distinguishes an absent key from \<^verbatim>\<open>null\<close>.
\<close>

record approvalRequestUpdate =
  au_entityType :: "string option"
  au_entityId :: "int option"
  au_requestedBy :: "int option"
  au_status :: "string option"
  au_notes :: "string option option"

record db =
  products :: "product list"
  suppliers :: "partner list"
  vendors :: "partner list"
  distributors :: "partner list"
  retailers :: "partner list"
  billedEntities :: "partner list"
  purchases :: "purchase list"
  purchases_seq :: int
  sales :: "sale list"
  sales_seq :: int
  invoiceTemplates :: "invoiceTemplate list"
  invoiceTemplates_seq :: int
  approvalRequests :: "approvalRequest list"
  approvalRequests_seq :: int

text \<open>The store after migration: every table empty, every sequence at its first value.\<close>

definition emptyDb :: db where
  "emptyDb = \<lparr>products = [], suppliers = [], vendors = [], distributors = [],
     retailers = [], billedEntities = [], purchases = [], purchases_seq = 1,
     sales = [], sales_seq = 1, invoiceTemplates = [], invoiceTemplates_seq = 1,
     approvalRequests = [], approvalRequests_seq = 1\<rparr>"

text \<open>JavaScript truthiness of a number: everything but zero.\<close>

definition truthy :: "int \<Rightarrow> bool" where
  "truthy n = (n \<noteq> 0)"

section \<open>Products and the stock ledger\<close>

text \<open>
  \<^verbatim>\<open>getLowStockProducts(threshold?)\<close>: the guard is \<^verbatim>\<open>if (threshold)\<close>, so the
  first query runs for a truthy threshold only (\<^verbatim>\<open>NaN\<close>, falsy as well, has no
  counterpart in \<^typ>\<open>int\<close>). In the second query a row whose \<^verbatim>\<open>min_stock\<close> is
  \<^verbatim>\<open>NULL\<close> does not satisfy the comparison.
\<close>

definition getLowStockProducts :: "int option \<Rightarrow> db \<Rightarrow> product list" where
  "getLowStockProducts threshold s =
     (case threshold of
        Some t \<Rightarrow>
          if truthy t then filter (\<lambda>p. p_isActive p \<and> p_stock p \<le> t) (products s)
          else filter (\<lambda>p. p_isActive p \<and> (case p_minStock p of None \<Rightarrow> False | Some m \<Rightarrow> p_stock p \<le> m))
                 (products s)
      | None \<Rightarrow>
          filter (\<lambda>p. p_isActive p \<and> (case p_minStock p of None \<Rightarrow> False | Some m \<Rightarrow> p_stock p \<le> m))
            (products s))"

text \<open>
  \<^verbatim>\<open>updateProductStock(id, change)\<close>: one \<^verbatim>\<open>UPDATE\<close> with
  \<^verbatim>\<open>stock = stock + change\<close> on the rows with that id, returning the first updated row.
  Both parameters meet \<^verbatim>\<open>integer\<close> columns and the sum is stored in one, so the
  statement raises, and changes no row, unless the id, the change and the new stock of every
  row it updates are within 32 bits.
\<close>

definition updateProductStock ::
  "int \<Rightarrow> int \<Rightarrow> db \<Rightarrow> (store_error + product option) \<times> db" where
  "updateProductStock i change s =
     (if int4 i \<and> int4 change
         \<and> list_all (\<lambda>p. int4 (p_stock p + change)) (filter (\<lambda>p. p_id p = i) (products s))
      then
        (let ps = map (\<lambda>p. if p_id p = i then p\<lparr>p_stock := p_stock p + change\<rparr> else p)
                    (products s)
         in (Inr (find (\<lambda>p. p_id p = i) ps), s\<lparr>products := ps\<rparr>))
      else (Inl IntegerOutOfRange, s))"

text \<open>
  The loop shared by the four transaction methods:
  \<^verbatim>\<open>for (const item of items) if (item.productId && item.quantity)
     await this.updateProductStock(item.productId, f(item.quantity))\<close>,
  where \<open>f\<close> is the identity or the negation. An update that raises ends the loop: the
  items before it are applied, the items after it are not.
\<close>

fun adjustStocks ::
  "(int \<Rightarrow> int) \<Rightarrow> line_item list \<Rightarrow> db \<Rightarrow> (store_error + unit) \<times> db" where
  "adjustStocks f [] s = (Inr (), s)"
| "adjustStocks f (item # rest) s =
     (if truthy (productId item) \<and> truthy (quantity item) then
        (case updateProductStock (productId item) (f (quantity item)) s of
           (Inl e, s1) \<Rightarrow> (Inl e, s1)
         | (Inr product, s1) \<Rightarrow> adjustStocks f rest s1)
      else adjustStocks f rest s)"

definition getPurchase :: "int \<Rightarrow> db \<Rightarrow> purchase option" where
  "getPurchase i s = find (\<lambda>p. pu_id p = i) (purchases s)"

text \<open>
  \<^verbatim>\<open>createPurchase\<close> inserts the row and then walks its items, with no transaction
  around the two: when the walk raises, the row stays stored.
\<close>

definition createPurchase :: "insertPurchase \<Rightarrow> db \<Rightarrow> (store_error + purchase) \<times> db" where
  "createPurchase insertPurchase s =
     (let purchase = \<lparr>pu_id = purchases_seq s, pu_supplierId = ip_supplierId insertPurchase,
                      pu_items = ip_items insertPurchase\<rparr>;
          s1 = s\<lparr>purchases := purchases s @ [purchase], purchases_seq := purchases_seq s + 1\<rparr>
      in (case pu_items purchase of
            ItemArray its \<Rightarrow>
              (case adjustStocks (\<lambda>q. q) its s1 of
                 (Inl e, s2) \<Rightarrow> (Inl e, s2)
               | (Inr u, s2) \<Rightarrow> (Inr purchase, s2))
          | NotArray \<Rightarrow> (Inr purchase, s1)))"

text \<open>
  \<^verbatim>\<open>deletePurchase\<close> looks the row up, returns false when there is none, walks its
  items and only then deletes: when the walk raises, the row is not deleted.
\<close>

definition deletePurchase :: "int \<Rightarrow> db \<Rightarrow> (store_error + bool) \<times> db" where
  "deletePurchase i s =
     (case find (\<lambda>p. pu_id p = i) (purchases s) of
        None \<Rightarrow> (Inr False, s)
      | Some purchase \<Rightarrow>
          (case (case pu_items purchase of
                   ItemArray its \<Rightarrow> adjustStocks (\<lambda>q. - q) its s
                 | NotArray \<Rightarrow> (Inr (), s)) of
             (Inl e, s1) \<Rightarrow> (Inl e, s1)
           | (Inr u, s1) \<Rightarrow>
               (let result = filter (\<lambda>p. pu_id p = i) (purchases s1)
                in (Inr (length result > 0),
                    s1\<lparr>purchases := filter (\<lambda>p. pu_id p \<noteq> i) (purchases s1)\<rparr>))))"

definition getSale :: "int \<Rightarrow> db \<Rightarrow> sale option" where
  "getSale i s = find (\<lambda>x. sa_id x = i) (sales s)"

definition createSale :: "insertSale \<Rightarrow> db \<Rightarrow> (store_error + sale) \<times> db" where
  "createSale insertSale s =
     (let sale = \<lparr>sa_id = sales_seq s, sa_salespersonId = is_salespersonId insertSale,
                  sa_items = is_items insertSale\<rparr>;
          s1 = s\<lparr>sales := sales s @ [sale], sales_seq := sales_seq s + 1\<rparr>
      in (case sa_items sale of
            ItemArray its \<Rightarrow>
              (case adjustStocks (\<lambda>q. - q) its s1 of
                 (Inl e, s2) \<Rightarrow> (Inl e, s2)
               | (Inr u, s2) \<Rightarrow> (Inr sale, s2))
          | NotArray \<Rightarrow> (Inr sale, s1)))"

definition deleteSale :: "int \<Rightarrow> db \<Rightarrow> (store_error + bool) \<times> db" where
  "deleteSale i s =
     (case find (\<lambda>x. sa_id x = i) (sales s) of
        None \<Rightarrow> (Inr False, s)
      | Some sale \<Rightarrow>
          (case (case sa_items sale of
                   ItemArray its \<Rightarrow> adjustStocks (\<lambda>q. q) its s
                 | NotArray \<Rightarrow> (Inr (), s)) of
             (Inl e, s1) \<Rightarrow> (Inl e, s1)
           | (Inr u, s1) \<Rightarrow>
               (let result = filter (\<lambda>x. sa_id x = i) (sales s1)
                in (Inr (length result > 0),
                    s1\<lparr>sales := filter (\<lambda>x. sa_id x \<noteq> i) (sales s1)\<rparr>))))"

section \<open>Invoice templates\<close>

text \<open>
  \<^verbatim>\<open>UPDATE invoice_templates SET is_default = false WHERE is_default = true\<close>, the
  first statement of both template methods when the incoming flag is truthy.
\<close>

definition unsetDefaults :: "db \<Rightarrow> db" where
  "unsetDefaults s =
     s\<lparr>invoiceTemplates :=
         map (\<lambda>t. if t_isDefault t then t\<lparr>t_isDefault := False\<rparr> else t) (invoiceTemplates s)\<rparr>"

definition getInvoiceTemplate :: "int \<Rightarrow> db \<Rightarrow> invoiceTemplate option" where
  "getInvoiceTemplate i s = find (\<lambda>t. t_id t = i) (invoiceTemplates s)"

definition createInvoiceTemplate :: "insertInvoiceTemplate \<Rightarrow> db \<Rightarrow> invoiceTemplate \<times> db" where
  "createInvoiceTemplate insertTemplate s =
     (let isDefault = (it_isDefault insertTemplate = Some True);
          s1 = (if isDefault then unsetDefaults s else s);
          template = \<lparr>t_id = invoiceTemplates_seq s1, t_name = it_name insertTemplate,
                      t_template = it_template insertTemplate, t_isDefault = isDefault\<rparr>
      in (template,
          s1\<lparr>invoiceTemplates := invoiceTemplates s1 @ [template],
             invoiceTemplates_seq := invoiceTemplates_seq s1 + 1\<rparr>))"

definition applyTemplateUpdate :: "invoiceTemplateUpdate \<Rightarrow> invoiceTemplate \<Rightarrow> invoiceTemplate" where
  "applyTemplateUpdate u t =
     t\<lparr>t_name := (case tu_name u of None \<Rightarrow> t_name t | Some v \<Rightarrow> v),
       t_template := (case tu_template u of None \<Rightarrow> t_template t | Some v \<Rightarrow> v),
       t_isDefault := (case tu_isDefault u of None \<Rightarrow> t_isDefault t | Some v \<Rightarrow> v)\<rparr>"

definition updateInvoiceTemplate ::
  "int \<Rightarrow> invoiceTemplateUpdate \<Rightarrow> db \<Rightarrow> invoiceTemplate option \<times> db" where
  "updateInvoiceTemplate i templateUpdate s =
     (let isDefault = (tu_isDefault templateUpdate = Some True);
          s1 = (if isDefault then unsetDefaults s else s);
          ts = map (\<lambda>t. if t_id t = i then applyTemplateUpdate templateUpdate t else t)
                 (invoiceTemplates s1)
      in (find (\<lambda>t. t_id t = i) ts, s1\<lparr>invoiceTemplates := ts\<rparr>))"

definition getDefaultInvoiceTemplate :: "db \<Rightarrow> invoiceTemplate option" where
  "getDefaultInvoiceTemplate s = find t_isDefault (invoiceTemplates s)"

section \<open>Approval requests\<close>

definition getApprovalRequest :: "int \<Rightarrow> db \<Rightarrow> approvalRequest option" where
  "getApprovalRequest i s = find (\<lambda>r. ar_id r = i) (approvalRequests s)"

text \<open>
  \<^verbatim>\<open>createApprovalRequest\<close> inserts \<^verbatim>\<open>{...insertRequest, status: "pending"}\<close>:
  the literal comes after the spread and wins over a key of the same name.
\<close>

definition createApprovalRequest :: "insertApprovalRequest \<Rightarrow> db \<Rightarrow> approvalRequest \<times> db" where
  "createApprovalRequest insertRequest s =
     (let request = \<lparr>ar_id = approvalRequests_seq s,
                     ar_entityType = ia_entityType insertRequest,
                     ar_entityId = ia_entityId insertRequest,
                     ar_requestedBy = ia_requestedBy insertRequest,
                     ar_status = ''pending'',
                     ar_notes = ia_notes insertRequest\<rparr>
      in (request,
          s\<lparr>approvalRequests := approvalRequests s @ [request],
            approvalRequests_seq := approvalRequests_seq s + 1\<rparr>))"

definition applyRequestUpdate :: "approvalRequestUpdate \<Rightarrow> approvalRequest \<Rightarrow> approvalRequest" where
  "applyRequestUpdate u r =
     r\<lparr>ar_entityType := (case au_entityType u of None \<Rightarrow> ar_entityType r | Some v \<Rightarrow> v),
       ar_entityId := (case au_entityId u of None \<Rightarrow> ar_entityId r | Some v \<Rightarrow> v),
       ar_requestedBy := (case au_requestedBy u of None \<Rightarrow> ar_requestedBy r | Some v \<Rightarrow> v),
       ar_status := (case au_status u of None \<Rightarrow> ar_status r | Some v \<Rightarrow> v),
       ar_notes := (case au_notes u of None \<Rightarrow> ar_notes r | Some v \<Rightarrow> v)\<rparr>"

text \<open>\<^verbatim>\<open>UPDATE t SET is_approved = true WHERE id = entityId\<close> on a partner table.\<close>

definition approveEntity :: "int \<Rightarrow> partner list \<Rightarrow> partner list" where
  "approveEntity entityId tbl =
     map (\<lambda>e. if e_id e = entityId then e\<lparr>e_isApproved := True\<rparr> else e) tbl"

text \<open>
  \<^verbatim>\<open>updateApprovalRequest\<close>: the row is updated first and read back; the
  \<^verbatim>\<open>switch\<close> on its \<^verbatim>\<open>entityType\<close> has four cases and no default.
\<close>

definition updateApprovalRequest ::
  "int \<Rightarrow> approvalRequestUpdate \<Rightarrow> db \<Rightarrow> approvalRequest option \<times> db" where
  "updateApprovalRequest i requestUpdate s =
     (let rs = map (\<lambda>r. if ar_id r = i then applyRequestUpdate requestUpdate r else r)
                 (approvalRequests s);
          s1 = s\<lparr>approvalRequests := rs\<rparr>
      in case find (\<lambda>r. ar_id r = i) rs of
           None \<Rightarrow> (None, s1)
         | Some request \<Rightarrow>
             if au_status requestUpdate = Some ''approved''
                \<or> au_status requestUpdate = Some ''rejected''
             then
               (if au_status requestUpdate = Some ''approved'' then
                  (if ar_entityType request = ''vendor'' then
                     (Some request, s1\<lparr>vendors := approveEntity (ar_entityId request) (vendors s1)\<rparr>)
                   else if ar_entityType request = ''distributor'' then
                     (Some request,
                      s1\<lparr>distributors := approveEntity (ar_entityId request) (distributors s1)\<rparr>)
                   else if ar_entityType request = ''retailer'' then
                     (Some request, s1\<lparr>retailers := approveEntity (ar_entityId request) (retailers s1)\<rparr>)
                   else if ar_entityType request = ''billedEntity'' then
                     (Some request,
                      s1\<lparr>billedEntities := approveEntity (ar_entityId request) (billedEntities s1)\<rparr>)
                   else (Some request, s1))
                else (Some request, s1))
             else (Some request, s1))"

section \<open>Sequences of calls and the quantities the claims speak of\<close>

datatype stock_op =
    CreatePurchase insertPurchase
  | CreateSale insertSale
  | DeletePurchase int
  | DeleteSale int

fun stock_step :: "db \<Rightarrow> stock_op \<Rightarrow> db" where
  "stock_step s (CreatePurchase x) = snd (createPurchase x s)"
| "stock_step s (CreateSale x) = snd (createSale x s)"
| "stock_step s (DeletePurchase i) = snd (deletePurchase i s)"
| "stock_step s (DeleteSale i) = snd (deleteSale i s)"

text \<open>
  Calls come from separate requests: a call that raised does not keep the later ones from
  running, on the store it left.
\<close>

definition run_stock_ops :: "db \<Rightarrow> stock_op list \<Rightarrow> db" where
  "run_stock_ops s ops = foldl stock_step s ops"

fun stock_returned :: "db \<Rightarrow> stock_op \<Rightarrow> bool" where
  "stock_returned s (CreatePurchase x) = returned (fst (createPurchase x s))"
| "stock_returned s (CreateSale x) = returned (fst (createSale x s))"
| "stock_returned s (DeletePurchase i) = returned (fst (deletePurchase i s))"
| "stock_returned s (DeleteSale i) = returned (fst (deleteSale i s))"

text \<open>Every call of the sequence returned: none raised.\<close>

fun all_returned :: "db \<Rightarrow> stock_op list \<Rightarrow> bool" where
  "all_returned s [] = True"
| "all_returned s (op # ops) = (stock_returned s op \<and> all_returned (stock_step s op) ops)"

text \<open>The line items of a transaction; a value that is no array has none.\<close>

fun itemsOf :: "jsonb_items \<Rightarrow> line_item list" where
  "itemsOf (ItemArray its) = its"
| "itemsOf NotArray = []"

text \<open>The sum of the quantities of the line items that reference product \<open>pid\<close>.\<close>

definition qtyFor :: "int \<Rightarrow> line_item list \<Rightarrow> int" where
  "qtyFor pid its = sum_list (map quantity (filter (\<lambda>it. productId it = pid) its))"

definition purchasedQty :: "db \<Rightarrow> int \<Rightarrow> int" where
  "purchasedQty s pid = sum_list (map (\<lambda>p. qtyFor pid (itemsOf (pu_items p))) (purchases s))"

definition soldQty :: "db \<Rightarrow> int \<Rightarrow> int" where
  "soldQty s pid = sum_list (map (\<lambda>x. qtyFor pid (itemsOf (sa_items x))) (sales s))"

datatype template_op =
    CreateTemplate insertInvoiceTemplate
  | UpdateTemplate int invoiceTemplateUpdate

fun template_step :: "db \<Rightarrow> template_op \<Rightarrow> db" where
  "template_step s (CreateTemplate x) = snd (createInvoiceTemplate x s)"
| "template_step s (UpdateTemplate i u) = snd (updateInvoiceTemplate i u s)"

definition run_template_ops :: "db \<Rightarrow> template_op list \<Rightarrow> db" where
  "run_template_ops s ops = foldl template_step s ops"

text \<open>The rows of the template table that are marked default.\<close>

definition defaultTemplates :: "db \<Rightarrow> invoiceTemplate list" where
  "defaultTemplates s = filter t_isDefault (invoiceTemplates s)"

text \<open>
  What a \<^verbatim>\<open>serial\<close> primary key gives: the ids of a table are pairwise different and
  below the next value of its sequence.
\<close>

definition serial_ok :: "int list \<Rightarrow> int \<Rightarrow> bool" where
  "serial_ok ids next = (distinct ids \<and> list_all (\<lambda>i. i < next) ids)"

text \<open>
  \<^verbatim>\<open>insertApprovalRequestSchema\<close> is the table's insert schema with \<^verbatim>\<open>id\<close>,
  \<^verbatim>\<open>createdAt\<close>, \<^verbatim>\<open>updatedAt\<close> and \<^verbatim>\<open>status\<close> omitted. Parsing a request
  body needs the three \<^verbatim>\<open>notNull\<close> columns without default, takes \<^verbatim>\<open>notes\<close> when
  present and keeps no other key.
\<close>

record rawApprovalRequest =
  raw_id :: "int option"
  raw_entityType :: "string option"
  raw_entityId :: "int option"
  raw_requestedBy :: "int option"
  raw_status :: "string option"
  raw_notes :: "string option option"

definition insertApprovalRequestSchema :: "rawApprovalRequest \<Rightarrow> insertApprovalRequest option" where
  "insertApprovalRequestSchema raw =
     (case (raw_entityType raw, raw_entityId raw, raw_requestedBy raw) of
        (Some t, Some e, Some r) \<Rightarrow>
          Some \<lparr>ia_entityType = t, ia_entityId = e, ia_requestedBy = r,
                ia_notes = (case raw_notes raw of None \<Rightarrow> None | Some n \<Rightarrow> n),
                ia_status = None\<rparr>
      | _ \<Rightarrow> None)"

text \<open>
  What one walk of the items adds to the stock of product \<open>pid\<close>: the guard lets an item
  through when both its product id and its quantity are truthy.
\<close>

definition applied :: "(int \<Rightarrow> int) \<Rightarrow> line_item list \<Rightarrow> int \<Rightarrow> int" where
  "applied f its pid =
     sum_list (map (\<lambda>it. f (quantity it))
       (filter (\<lambda>it. productId it = pid \<and> productId it \<noteq> 0 \<and> quantity it \<noteq> 0) its))"

text \<open>
  A product row with its stock raised by the purchases and lowered by the sales that
  exist in store \<open>s\<close>.
\<close>

definition netStock :: "db \<Rightarrow> product \<Rightarrow> product" where
  "netStock s p = p\<lparr>p_stock := p_stock p + purchasedQty s (p_id p) - soldQty s (p_id p)\<rparr>"

text \<open>The invariant of the ledger over the product rows \<open>base\<close> it started from.\<close>

definition ledger_inv :: "product list \<Rightarrow> db \<Rightarrow> bool" where
  "ledger_inv base s =
     (serial_ok (map pu_id (purchases s)) (purchases_seq s)
      \<and> serial_ok (map sa_id (sales s)) (sales_seq s)
      \<and> products s = map (netStock s) base)"

definition template_inv :: "db \<Rightarrow> bool" where
  "template_inv s =
     (serial_ok (map t_id (invoiceTemplates s)) (invoiceTemplates_seq s)
      \<and> length (defaultTemplates s) \<le> 1)"

section \<open>Example stores\<close>

definition widget :: product where
  "widget = \<lparr>p_id = 1, p_name = ''widget'', p_stock = 10, p_minStock = Some 5, p_isActive = True\<rparr>"

definition gadget :: product where
  "gadget = \<lparr>p_id = 2, p_name = ''gadget'', p_stock = 3, p_minStock = Some 5, p_isActive = True\<rparr>"

definition acme :: partner where
  "acme = \<lparr>e_id = 1, e_name = ''acme'', e_isApproved = False, e_isActive = True\<rparr>"

definition bolt :: partner where
  "bolt = \<lparr>e_id = 2, e_name = ''bolt'', e_isApproved = False, e_isActive = True\<rparr>"

text \<open>Two products, two partners in every partner table, no transactions yet.\<close>

definition shopDb :: db where
  "shopDb = emptyDb\<lparr>products := [widget, gadget], suppliers := [acme, bolt],
     vendors := [acme, bolt], distributors := [acme, bolt], retailers := [acme, bolt],
     billedEntities := [acme, bolt]\<rparr>"

definition restock :: insertPurchase where
  "restock = \<lparr>ip_supplierId = 1,
     ip_items = ItemArray [\<lparr>productId = 1, quantity = 20\<rparr>, \<lparr>productId = 2, quantity = 4\<rparr>]\<rparr>"

definition order :: insertSale where
  "order = \<lparr>is_salespersonId = 1,
     is_items = ItemArray [\<lparr>productId = 1, quantity = 25\<rparr>, \<lparr>productId = 1, quantity = 0\<rparr>,
                           \<lparr>productId = 9, quantity = 2\<rparr>]\<rparr>"

definition ledgerOps :: "stock_op list" where
  "ledgerOps = [CreatePurchase restock, CreateSale order, CreatePurchase restock,
                DeletePurchase 1, DeleteSale 5]"

text \<open>A product whose stock is the largest value the column holds.\<close>

definition crate :: product where
  "crate = \<lparr>p_id = 3, p_name = ''crate'', p_stock = 2147483647, p_minStock = None,
     p_isActive = True\<rparr>"

definition brimDb :: db where
  "brimDb = emptyDb\<lparr>products := [widget, gadget, crate]\<rparr>"

definition topUp :: insertPurchase where
  "topUp = \<lparr>ip_supplierId = 1,
     ip_items = ItemArray [\<lparr>productId = 1, quantity = 20\<rparr>, \<lparr>productId = 3, quantity = 1\<rparr>,
                           \<lparr>productId = 2, quantity = 4\<rparr>]\<rparr>"

definition cashSale :: insertSale where
  "cashSale = \<lparr>is_salespersonId = 1,
     is_items = ItemArray [\<lparr>productId = 2, quantity = 1\<rparr>, \<lparr>productId = 1, quantity = 10\<rparr>]\<rparr>"

definition bulkBuy :: insertPurchase where
  "bulkBuy = \<lparr>ip_supplierId = 1,
     ip_items = ItemArray [\<lparr>productId = 1, quantity = 2147483647\<rparr>]\<rparr>"

text \<open>Sale 1 took 10 widgets and 1 gadget; purchase 1 then filled the widget stock up.\<close>

definition fullDb :: db where
  "fullDb = run_stock_ops shopDb [CreateSale cashSale, CreatePurchase bulkBuy]"

definition classic :: insertInvoiceTemplate where
  "classic = \<lparr>it_name = ''classic'', it_template = ''<html>A</html>'', it_isDefault = Some True\<rparr>"

definition modern :: insertInvoiceTemplate where
  "modern = \<lparr>it_name = ''modern'', it_template = ''<html>B</html>'', it_isDefault = Some True\<rparr>"

definition plain :: insertInvoiceTemplate where
  "plain = \<lparr>it_name = ''plain'', it_template = ''<html>C</html>'', it_isDefault = None\<rparr>"

definition makeDefault :: invoiceTemplateUpdate where
  "makeDefault = \<lparr>tu_name = None, tu_template = None, tu_isDefault = Some True\<rparr>"

text \<open>Templates 1 (classic, default) and 2 (plain).\<close>

definition templateDb :: db where
  "templateDb = snd (createInvoiceTemplate plain (snd (createInvoiceTemplate classic shopDb)))"

definition templateOps :: "template_op list" where
  "templateOps = [CreateTemplate modern, UpdateTemplate 2 makeDefault,
                  UpdateTemplate 1 \<lparr>tu_name = Some ''old'', tu_template = None, tu_isDefault = None\<rparr>]"

definition vendorRequest :: insertApprovalRequest where
  "vendorRequest = \<lparr>ia_entityType = ''vendor'', ia_entityId = 2, ia_requestedBy = 1,
     ia_notes = Some ''New vendor bolt'', ia_status = Some ''approved''\<rparr>"

definition supplierRequest :: insertApprovalRequest where
  "supplierRequest = \<lparr>ia_entityType = ''supplier'', ia_entityId = 1, ia_requestedBy = 1,
     ia_notes = None, ia_status = None\<rparr>"

text \<open>The body of \<^verbatim>\<open>PUT /approval-requests/:id\<close> as the route passes it on.\<close>

definition approve :: approvalRequestUpdate where
  "approve = \<lparr>au_entityType = None, au_entityId = None, au_requestedBy = None,
     au_status = Some ''approved'', au_notes = None\<rparr>"

definition reject :: approvalRequestUpdate where
  "reject = \<lparr>au_entityType = None, au_entityId = None, au_requestedBy = None,
     au_status = Some ''rejected'', au_notes = None\<rparr>"

text \<open>Request 1 is for vendor 2, request 2 for supplier 1; both are pending.\<close>

definition pendingDb :: db where
  "pendingDb = snd (createApprovalRequest supplierRequest
                      (snd (createApprovalRequest vendorRequest shopDb)))"

definition vendorRow :: approvalRequest where
  "vendorRow = \<lparr>ar_id = 1, ar_entityType = ''vendor'', ar_entityId = 2, ar_requestedBy = 1,
     ar_status = ''pending'', ar_notes = Some ''New vendor bolt''\<rparr>"

definition supplierRow :: approvalRequest where
  "supplierRow = \<lparr>ar_id = 2, ar_entityType = ''supplier'', ar_entityId = 1, ar_requestedBy = 1,
     ar_status = ''pending'', ar_notes = None\<rparr>"

section \<open>Stock ledger\<close>

text \<open>A stock update that returns has added the change to the rows with that id.\<close>

lemma updateProductStock_returned:
  "returned (fst (updateProductStock i c s)) \<Longrightarrow>
   snd (updateProductStock i c s) =
     s\<lparr>products := map (\<lambda>p. if p_id p = i then p\<lparr>p_stock := p_stock p + c\<rparr> else p) (products s)\<rparr>"
  by (simp add: updateProductStock_def Let_def split: if_splits)

text \<open>
  A walk of the items that returns has touched the product table only, and each row by
  its own total.
\<close>

lemma adjustStocks_returned:
  "returned (fst (adjustStocks f its s)) \<Longrightarrow>
   snd (adjustStocks f its s) =
     s\<lparr>products := map (\<lambda>p. p\<lparr>p_stock := p_stock p + applied f its (p_id p)\<rparr>) (products s)\<rparr>"
proof (induction its arbitrary: s)
  case Nil
  then show ?case by (simp add: applied_def)
next
  case (Cons item rest)
  show ?case
  proof (cases "truthy (productId item) \<and> truthy (quantity item)")
    case True
    obtain r s1 where u: "updateProductStock (productId item) (f (quantity item)) s = (r, s1)"
      by (cases "updateProductStock (productId item) (f (quantity item)) s")
    show ?thesis
    proof (cases r)
      case (Inl e)
      with Cons.prems True u show ?thesis by simp
    next
      case (Inr v)
      with u have "returned (fst (updateProductStock (productId item) (f (quantity item)) s))"
        by simp
      from updateProductStock_returned [OF this] u
      have s1: "s1 = s\<lparr>products := map (\<lambda>p. if p_id p = productId item
                    then p\<lparr>p_stock := p_stock p + f (quantity item)\<rparr> else p) (products s)\<rparr>"
        by simp
      from Cons.prems True u Inr have "returned (fst (adjustStocks f rest s1))" by simp
      from Cons.IH [OF this] True u Inr show ?thesis
        by (simp add: s1 truthy_def o_def applied_def)
    qed
  next
    case False
    with Cons.prems have "returned (fst (adjustStocks f rest s))" by simp
    from Cons.IH [OF this] False show ?thesis
      by (auto simp: truthy_def applied_def)
  qed
qed

lemma applied_plus: "pid \<noteq> 0 \<Longrightarrow> applied (\<lambda>q. q) its pid = qtyFor pid its"
  by (induction its) (auto simp: applied_def qtyFor_def)

lemma applied_minus: "applied (\<lambda>q. - q) its pid = - applied (\<lambda>q. q) its pid"
  by (induction its) (auto simp: applied_def)

text \<open>The store a transaction method leaves when it returns.\<close>

lemma createPurchase_returned:
  assumes "returned (fst (createPurchase x s))"
  shows "createPurchase x s =
    (Inr \<lparr>pu_id = purchases_seq s, pu_supplierId = ip_supplierId x, pu_items = ip_items x\<rparr>,
     s\<lparr>purchases := purchases s @
          [\<lparr>pu_id = purchases_seq s, pu_supplierId = ip_supplierId x, pu_items = ip_items x\<rparr>],
       purchases_seq := purchases_seq s + 1,
       products := map (\<lambda>p. p\<lparr>p_stock := p_stock p + applied (\<lambda>q. q) (itemsOf (ip_items x)) (p_id p)\<rparr>)
                     (products s)\<rparr>)"
proof (cases "ip_items x")
  case NotArray
  then show ?thesis
    by (simp add: createPurchase_def Let_def applied_def)
next
  case (ItemArray its)
  let ?s1 = "s\<lparr>purchases := purchases s @
          [\<lparr>pu_id = purchases_seq s, pu_supplierId = ip_supplierId x, pu_items = ip_items x\<rparr>],
       purchases_seq := purchases_seq s + 1\<rparr>"
  from assms ItemArray have r: "returned (fst (adjustStocks (\<lambda>q. q) its ?s1))"
    by (simp add: createPurchase_def Let_def split: prod.splits sum.splits)
  from adjustStocks_returned [OF r] r ItemArray show ?thesis
    by (cases "adjustStocks (\<lambda>q. q) its ?s1")
       (auto simp: createPurchase_def Let_def split: sum.splits)
qed

lemma createSale_returned:
  assumes "returned (fst (createSale x s))"
  shows "createSale x s =
    (Inr \<lparr>sa_id = sales_seq s, sa_salespersonId = is_salespersonId x, sa_items = is_items x\<rparr>,
     s\<lparr>sales := sales s @
          [\<lparr>sa_id = sales_seq s, sa_salespersonId = is_salespersonId x, sa_items = is_items x\<rparr>],
       sales_seq := sales_seq s + 1,
       products := map (\<lambda>p. p\<lparr>p_stock := p_stock p + applied (\<lambda>q. - q) (itemsOf (is_items x)) (p_id p)\<rparr>)
                     (products s)\<rparr>)"
proof (cases "is_items x")
  case NotArray
  then show ?thesis
    by (simp add: createSale_def Let_def applied_def)
next
  case (ItemArray its)
  let ?s1 = "s\<lparr>sales := sales s @
          [\<lparr>sa_id = sales_seq s, sa_salespersonId = is_salespersonId x, sa_items = is_items x\<rparr>],
       sales_seq := sales_seq s + 1\<rparr>"
  from assms ItemArray have r: "returned (fst (adjustStocks (\<lambda>q. - q) its ?s1))"
    by (simp add: createSale_def Let_def split: prod.splits sum.splits)
  from adjustStocks_returned [OF r] r ItemArray show ?thesis
    by (cases "adjustStocks (\<lambda>q. - q) its ?s1")
       (auto simp: createSale_def Let_def split: sum.splits)
qed

lemma found_row_in_filter: "find P xs = Some x \<Longrightarrow> filter P xs \<noteq> []"
  by (induction xs) (auto split: if_splits)

lemma deletePurchase_returned:
  assumes "find (\<lambda>p. pu_id p = i) (purchases s) = Some row"
    and "returned (fst (deletePurchase i s))"
  shows "deletePurchase i s =
    (Inr True,
     s\<lparr>products := map (\<lambda>p. p\<lparr>p_stock := p_stock p + applied (\<lambda>q. - q) (itemsOf (pu_items row)) (p_id p)\<rparr>)
                     (products s),
       purchases := filter (\<lambda>p. pu_id p \<noteq> i) (purchases s)\<rparr>)"
proof -
  from assms(1) have here: "filter (\<lambda>p. pu_id p = i) (purchases s) \<noteq> []"
    by (rule found_row_in_filter)
  show ?thesis
  proof (cases "pu_items row")
    case NotArray
    with assms(1) here show ?thesis
      by (simp add: deletePurchase_def Let_def applied_def)
  next
    case (ItemArray its)
    from assms ItemArray have r: "returned (fst (adjustStocks (\<lambda>q. - q) its s))"
      by (simp add: deletePurchase_def Let_def split: prod.splits sum.splits)
    from adjustStocks_returned [OF r] r ItemArray assms(1) here show ?thesis
      by (cases "adjustStocks (\<lambda>q. - q) its s")
         (auto simp: deletePurchase_def Let_def split: sum.splits)
  qed
qed

lemma deleteSale_returned:
  assumes "find (\<lambda>x. sa_id x = i) (sales s) = Some row"
    and "returned (fst (deleteSale i s))"
  shows "deleteSale i s =
    (Inr True,
     s\<lparr>products := map (\<lambda>p. p\<lparr>p_stock := p_stock p + applied (\<lambda>q. q) (itemsOf (sa_items row)) (p_id p)\<rparr>)
                     (products s),
       sales := filter (\<lambda>x. sa_id x \<noteq> i) (sales s)\<rparr>)"
proof -
  from assms(1) have here: "filter (\<lambda>x. sa_id x = i) (sales s) \<noteq> []"
    by (rule found_row_in_filter)
  show ?thesis
  proof (cases "sa_items row")
    case NotArray
    with assms(1) here show ?thesis
      by (simp add: deleteSale_def Let_def applied_def)
  next
    case (ItemArray its)
    from assms ItemArray have r: "returned (fst (adjustStocks (\<lambda>q. q) its s))"
      by (simp add: deleteSale_def Let_def split: prod.splits sum.splits)
    from adjustStocks_returned [OF r] r ItemArray assms(1) here show ?thesis
      by (cases "adjustStocks (\<lambda>q. q) its s")
         (auto simp: deleteSale_def Let_def split: sum.splits)
  qed
qed

lemma purchasedQty_append:
  "purchases s' = purchases s @ [x] \<Longrightarrow>
   purchasedQty s' pid = purchasedQty s pid + qtyFor pid (itemsOf (pu_items x))"
  by (simp add: purchasedQty_def)

lemma soldQty_append:
  "sales s' = sales s @ [x] \<Longrightarrow>
   soldQty s' pid = soldQty s pid + qtyFor pid (itemsOf (sa_items x))"
  by (simp add: soldQty_def)

text \<open>Deleting the one row with key \<open>i\<close> takes its share out of a sum over the table.\<close>

lemma sum_without_row:
  "distinct (map k xs) \<Longrightarrow> find (\<lambda>x. k x = i) xs = Some y \<Longrightarrow>
   sum_list (map g (filter (\<lambda>x. k x \<noteq> i) xs)) = sum_list (map g xs) - (g y :: int)"
proof (induction xs)
  case Nil
  then show ?case by simp
next
  case (Cons x xs)
  show ?case
  proof (cases "k x = i")
    case True
    with Cons.prems have "y = x" and "i \<notin> k ` set xs" by auto
    then have "filter (\<lambda>x. k x \<noteq> i) xs = xs"
      by (auto simp: filter_id_conv)
    with True \<open>y = x\<close> show ?thesis by simp
  next
    case False
    with Cons show ?thesis by simp
  qed
qed

lemma serial_ok_append: "serial_ok ids n \<Longrightarrow> serial_ok (ids @ [n]) (n + 1)"
  by (auto simp: serial_ok_def list_all_iff)

lemma serial_ok_filter: "serial_ok (map k xs) n \<Longrightarrow> serial_ok (map k (filter P xs)) n"
  by (auto simp: serial_ok_def list_all_iff distinct_map_filter)

lemma netStock_id [simp]: "p_id (netStock s p) = p_id p"
  by (simp add: netStock_def)

lemma ledger_createPurchase:
  assumes "ledger_inv base s" and "\<forall>p\<in>set base. p_id p \<noteq> 0"
    and "returned (fst (createPurchase x s))"
  shows "ledger_inv base (snd (createPurchase x s))"
proof -
  let ?s' = "snd (createPurchase x s)"
  let ?row = "\<lparr>pu_id = purchases_seq s, pu_supplierId = ip_supplierId x, pu_items = ip_items x\<rparr>"
  have pu: "purchases ?s' = purchases s @ [?row]"
    and sa: "sales ?s' = sales s"
    and seqs: "purchases_seq ?s' = purchases_seq s + 1" "sales_seq ?s' = sales_seq s"
    and pr: "products ?s' =
      map (\<lambda>p. p\<lparr>p_stock := p_stock p + applied (\<lambda>q. q) (itemsOf (pu_items ?row)) (p_id p)\<rparr>)
        (products s)"
    by (simp_all add: createPurchase_returned [OF assms(3)])
  have sold: "soldQty ?s' = soldQty s"
    by (simp add: soldQty_def sa fun_eq_iff)
  from assms(1) have "serial_ok (map pu_id (purchases ?s')) (purchases_seq ?s')"
    by (simp add: ledger_inv_def pu seqs serial_ok_append)
  moreover from assms(1) have "serial_ok (map sa_id (sales ?s')) (sales_seq ?s')"
    by (simp add: ledger_inv_def sa seqs)
  moreover have "products ?s' = map (netStock ?s') base"
  proof -
    from assms(1) have "products s = map (netStock s) base"
      by (simp add: ledger_inv_def)
    then show ?thesis using assms(2)
      by (simp add: pr netStock_def purchasedQty_append [OF pu] sold applied_plus)
  qed
  ultimately show ?thesis by (simp add: ledger_inv_def)
qed

lemma ledger_createSale:
  assumes "ledger_inv base s" and "\<forall>p\<in>set base. p_id p \<noteq> 0"
    and "returned (fst (createSale x s))"
  shows "ledger_inv base (snd (createSale x s))"
proof -
  let ?s' = "snd (createSale x s)"
  let ?row = "\<lparr>sa_id = sales_seq s, sa_salespersonId = is_salespersonId x, sa_items = is_items x\<rparr>"
  have sa: "sales ?s' = sales s @ [?row]"
    and pu: "purchases ?s' = purchases s"
    and seqs: "sales_seq ?s' = sales_seq s + 1" "purchases_seq ?s' = purchases_seq s"
    and pr: "products ?s' =
      map (\<lambda>p. p\<lparr>p_stock := p_stock p + applied (\<lambda>q. - q) (itemsOf (sa_items ?row)) (p_id p)\<rparr>)
        (products s)"
    by (simp_all add: createSale_returned [OF assms(3)])
  have bought: "purchasedQty ?s' = purchasedQty s"
    by (simp add: purchasedQty_def pu fun_eq_iff)
  from assms(1) have "serial_ok (map sa_id (sales ?s')) (sales_seq ?s')"
    by (simp add: ledger_inv_def sa seqs serial_ok_append)
  moreover from assms(1) have "serial_ok (map pu_id (purchases ?s')) (purchases_seq ?s')"
    by (simp add: ledger_inv_def pu seqs)
  moreover have "products ?s' = map (netStock ?s') base"
  proof -
    from assms(1) have "products s = map (netStock s) base"
      by (simp add: ledger_inv_def)
    then show ?thesis using assms(2)
      by (simp add: pr netStock_def soldQty_append [OF sa] bought applied_minus applied_plus)
  qed
  ultimately show ?thesis by (simp add: ledger_inv_def)
qed

lemma ledger_deletePurchase:
  assumes "ledger_inv base s" and "\<forall>p\<in>set base. p_id p \<noteq> 0"
    and "returned (fst (deletePurchase i s))"
  shows "ledger_inv base (snd (deletePurchase i s))"
proof (cases "find (\<lambda>p. pu_id p = i) (purchases s)")
  case None
  with assms(1) show ?thesis by (simp add: deletePurchase_def)
next
  case (Some row)
  let ?s' = "snd (deletePurchase i s)"
  have pu: "purchases ?s' = filter (\<lambda>p. pu_id p \<noteq> i) (purchases s)"
    and sa: "sales ?s' = sales s"
    and seqs: "sales_seq ?s' = sales_seq s" "purchases_seq ?s' = purchases_seq s"
    and pr: "products ?s' =
      map (\<lambda>p. p\<lparr>p_stock := p_stock p + applied (\<lambda>q. - q) (itemsOf (pu_items row)) (p_id p)\<rparr>)
        (products s)"
    by (simp_all add: deletePurchase_returned [OF Some assms(3)])
  from assms(1) have dist: "distinct (map pu_id (purchases s))"
    by (simp add: ledger_inv_def serial_ok_def)
  have bought: "purchasedQty ?s' pid = purchasedQty s pid - qtyFor pid (itemsOf (pu_items row))"
    for pid
    unfolding purchasedQty_def pu by (rule sum_without_row [OF dist Some])
  have sold: "soldQty ?s' = soldQty s"
    by (simp add: soldQty_def sa fun_eq_iff)
  from assms(1) have "serial_ok (map pu_id (purchases ?s')) (purchases_seq ?s')"
    by (simp add: ledger_inv_def pu seqs serial_ok_filter)
  moreover from assms(1) have "serial_ok (map sa_id (sales ?s')) (sales_seq ?s')"
    by (simp add: ledger_inv_def sa seqs)
  moreover have "products ?s' = map (netStock ?s') base"
  proof -
    from assms(1) have "products s = map (netStock s) base"
      by (simp add: ledger_inv_def)
    then show ?thesis using assms(2)
      by (simp add: pr netStock_def bought sold applied_minus applied_plus)
  qed
  ultimately show ?thesis by (simp add: ledger_inv_def)
qed

lemma ledger_deleteSale:
  assumes "ledger_inv base s" and "\<forall>p\<in>set base. p_id p \<noteq> 0"
    and "returned (fst (deleteSale i s))"
  shows "ledger_inv base (snd (deleteSale i s))"
proof (cases "find (\<lambda>x. sa_id x = i) (sales s)")
  case None
  with assms(1) show ?thesis by (simp add: deleteSale_def)
next
  case (Some row)
  let ?s' = "snd (deleteSale i s)"
  have sa: "sales ?s' = filter (\<lambda>x. sa_id x \<noteq> i) (sales s)"
    and pu: "purchases ?s' = purchases s"
    and seqs: "sales_seq ?s' = sales_seq s" "purchases_seq ?s' = purchases_seq s"
    and pr: "products ?s' =
      map (\<lambda>p. p\<lparr>p_stock := p_stock p + applied (\<lambda>q. q) (itemsOf (sa_items row)) (p_id p)\<rparr>)
        (products s)"
    by (simp_all add: deleteSale_returned [OF Some assms(3)])
  from assms(1) have dist: "distinct (map sa_id (sales s))"
    by (simp add: ledger_inv_def serial_ok_def)
  have sold: "soldQty ?s' pid = soldQty s pid - qtyFor pid (itemsOf (sa_items row))" for pid
    unfolding soldQty_def sa by (rule sum_without_row [OF dist Some])
  have bought: "purchasedQty ?s' = purchasedQty s"
    by (simp add: purchasedQty_def pu fun_eq_iff)
  from assms(1) have "serial_ok (map sa_id (sales ?s')) (sales_seq ?s')"
    by (simp add: ledger_inv_def sa seqs serial_ok_filter)
  moreover from assms(1) have "serial_ok (map pu_id (purchases ?s')) (purchases_seq ?s')"
    by (simp add: ledger_inv_def pu seqs)
  moreover have "products ?s' = map (netStock ?s') base"
  proof -
    from assms(1) have "products s = map (netStock s) base"
      by (simp add: ledger_inv_def)
    then show ?thesis using assms(2)
      by (simp add: pr netStock_def bought sold applied_plus)
  qed
  ultimately show ?thesis by (simp add: ledger_inv_def)
qed

lemma ledger_run:
  assumes "\<forall>p\<in>set base. p_id p \<noteq> 0"
  shows "ledger_inv base s \<Longrightarrow> all_returned s ops \<Longrightarrow> ledger_inv base (run_stock_ops s ops)"
  unfolding run_stock_ops_def
proof (induction ops arbitrary: s)
  case Nil
  then show ?case by simp
next
  case (Cons op ops)
  from Cons.prems assms have "ledger_inv base (stock_step s op)"
    by (cases op)
       (simp_all add: ledger_createPurchase ledger_createSale ledger_deletePurchase
          ledger_deleteSale)
  with Cons.prems show ?case by (simp add: Cons.IH)
qed

lemma ledger_start:
  assumes "purchases s = []" and "sales s = []"
  shows "ledger_inv (products s) s"
  using assms
  by (simp add: ledger_inv_def serial_ok_def netStock_def purchasedQty_def soldQty_def map_idI)

lemmas example_defs = shopDb_def emptyDb_def widget_def gadget_def acme_def bolt_def

lemmas ledger_defs = createPurchase_def createSale_def deletePurchase_def deleteSale_def
  updateProductStock_def truthy_def int4_def Let_def

lemmas ledger_example_defs = run_stock_ops_def restock_def order_def topUp_def cashSale_def
  bulkBuy_def crate_def brimDb_def

text \<open>
  C1, as claimed, fails. The store has no transactions and product ids 1, 2, 3; the crate's
  stock is the largest value the column holds. One \<open>createPurchase\<close> with items for
  products 1, 3 and 2 stores the purchase, adds 20 to product 1, raises on product 3 and
  never reaches product 2: the stocks are 30, 3 and 2147483647, where the purchases that
  exist give 30, 7 and 2147483648.
\<close>

theorem overflow_breaks_stock_formula:
  "purchases brimDb = [] \<and> sales brimDb = []
   \<and> map p_id (products brimDb) = [1, 2, 3]
   \<and> fst (createPurchase topUp brimDb) = Inl IntegerOutOfRange
   \<and> map pu_id (purchases (run_stock_ops brimDb [CreatePurchase topUp])) = [1]
   \<and> map p_stock (products (run_stock_ops brimDb [CreatePurchase topUp]))
        = [30, 3, 2147483647]
   \<and> map p_stock (map (netStock (run_stock_ops brimDb [CreatePurchase topUp])) (products brimDb))
        = [30, 7, 2147483648]
   \<and> products (run_stock_ops brimDb [CreatePurchase topUp])
        \<noteq> map (netStock (run_stock_ops brimDb [CreatePurchase topUp])) (products brimDb)"
proof -
  have a: "purchases brimDb = []" "sales brimDb = []" "map p_id (products brimDb) = [1, 2, 3]"
    by (simp_all add: ledger_example_defs example_defs)
  have b: "fst (createPurchase topUp brimDb) = Inl IntegerOutOfRange"
    by (simp add: ledger_example_defs example_defs ledger_defs)
  have c: "map pu_id (purchases (run_stock_ops brimDb [CreatePurchase topUp])) = [1]"
    by (simp add: ledger_example_defs example_defs ledger_defs)
  have d: "map p_stock (products (run_stock_ops brimDb [CreatePurchase topUp]))
        = [30, 3, 2147483647]"
    by (simp add: ledger_example_defs example_defs ledger_defs)
  have e: "map p_stock (map (netStock (run_stock_ops brimDb [CreatePurchase topUp]))
             (products brimDb)) = [30, 7, 2147483648]"
    by (simp add: ledger_example_defs example_defs ledger_defs netStock_def purchasedQty_def
          soldQty_def qtyFor_def)
  from d e have f: "products (run_stock_ops brimDb [CreatePurchase topUp])
        \<noteq> map (netStock (run_stock_ops brimDb [CreatePurchase topUp])) (products brimDb)"
    by auto
  from a b c d e f show ?thesis by blast
qed

text \<open>
  C1, amended. Take a store without purchases and sales, whose product ids are those a
  \<^verbatim>\<open>serial\<close> column gives (never zero), and any sequence of \<open>createPurchase\<close>,
  \<open>createSale\<close>, \<open>deletePurchase\<close> and \<open>deleteSale\<close> calls in which every call
  returns, none raising on an integer out of range. After it, every product row is the
  initial row with its stock replaced by the initial stock plus the quantities of the line
  items referencing the product in the purchases that exist now, minus the quantities of
  those in the sales that exist now.
\<close>

theorem stock_reflects_transactions:
  assumes "purchases s = []" and "sales s = []"
    and "\<forall>p\<in>set (products s). p_id p \<noteq> 0"
    and "all_returned s ops"
  shows "products (run_stock_ops s ops) = map (netStock (run_stock_ops s ops)) (products s)"
  using ledger_run [OF assms(3) ledger_start [OF assms(1,2)] assms(4)]
  by (simp add: ledger_inv_def)

theorem stock_reflects_transactions_witness:
  "purchases shopDb = [] \<and> sales shopDb = []
   \<and> map p_id (products shopDb) = [1, 2]
   \<and> all_returned shopDb ledgerOps
   \<and> products (run_stock_ops shopDb ledgerOps)
        = map (netStock (run_stock_ops shopDb ledgerOps)) (products shopDb)
   \<and> map p_stock (products (run_stock_ops shopDb ledgerOps)) = [5, 7]"
proof -
  have h1: "purchases shopDb = []" and h2: "sales shopDb = []"
    by (simp_all add: example_defs)
  have ids: "map p_id (products shopDb) = [1, 2]"
    by (simp add: example_defs)
  have h3: "\<forall>p\<in>set (products shopDb). p_id p \<noteq> 0"
    by (simp add: example_defs)
  have h4: "all_returned shopDb ledgerOps"
    by (simp add: ledgerOps_def ledger_example_defs example_defs ledger_defs)
  have run: "products (run_stock_ops shopDb ledgerOps)
        = map (netStock (run_stock_ops shopDb ledgerOps)) (products shopDb)"
    by (rule stock_reflects_transactions [OF h1 h2 h3 h4])
  have val: "map p_stock (products (run_stock_ops shopDb ledgerOps)) = [5, 7]"
    by (simp add: ledgerOps_def ledger_example_defs example_defs ledger_defs)
  from h1 h2 ids h4 run val show ?thesis by blast
qed

text \<open>
  The scenario of the specification: stock 10 and minimum 5; a purchase of 20 gives 30, a
  sale of 25 then gives 5, and the product shows up in the low-stock query without
  threshold.
\<close>

lemma scenario_purchase_then_sale:
  "map p_stock (products (snd (createPurchase
      \<lparr>ip_supplierId = 1, ip_items = ItemArray [\<lparr>productId = 1, quantity = 20\<rparr>]\<rparr>
      (emptyDb\<lparr>products := [widget]\<rparr>)))) = [30]
   \<and> map p_stock (getLowStockProducts None (snd (createSale
      \<lparr>is_salespersonId = 1, is_items = ItemArray [\<lparr>productId = 1, quantity = 25\<rparr>]\<rparr>
      (snd (createPurchase
        \<lparr>ip_supplierId = 1, ip_items = ItemArray [\<lparr>productId = 1, quantity = 20\<rparr>]\<rparr>
        (emptyDb\<lparr>products := [widget]\<rparr>)))))) = [5]"
  by (simp add: example_defs ledger_defs getLowStockProducts_def)

text \<open>
  C4, as claimed, fails. In the example store sale 1 has items for products 2 and 1, and
  product 1 has since been filled up to the largest stock the column holds. \<open>deleteSale\<close>
  gives product 2 its unit back, raises on product 1 and deletes nothing; \<open>createSale\<close>
  with the same items then returns. The stocks, 2147483647 and 2 before the two calls, are
  2147483637 and 2 after them.
\<close>

theorem overflow_breaks_round_trip:
  "getSale 1 fullDb = Some \<lparr>sa_id = 1, sa_salespersonId = 1, sa_items = is_items cashSale\<rparr>
   \<and> map p_stock (products fullDb) = [2147483647, 2]
   \<and> fst (deleteSale 1 fullDb) = Inl IntegerOutOfRange
   \<and> map p_stock (products (snd (deleteSale 1 fullDb))) = [2147483647, 3]
   \<and> map sa_id (sales (snd (deleteSale 1 fullDb))) = [1]
   \<and> returned (fst (createSale cashSale (snd (deleteSale 1 fullDb))))
   \<and> map p_stock (products (snd (createSale cashSale (snd (deleteSale 1 fullDb)))))
        = [2147483637, 2]
   \<and> products (snd (createSale cashSale (snd (deleteSale 1 fullDb)))) \<noteq> products fullDb"
proof -
  have a: "getSale 1 fullDb
             = Some \<lparr>sa_id = 1, sa_salespersonId = 1, sa_items = is_items cashSale\<rparr>"
    by (simp add: fullDb_def getSale_def ledger_example_defs example_defs ledger_defs)
  have b: "map p_stock (products fullDb) = [2147483647, 2]"
    by (simp add: fullDb_def ledger_example_defs example_defs ledger_defs)
  have c: "fst (deleteSale 1 fullDb) = Inl IntegerOutOfRange"
    by (simp add: fullDb_def ledger_example_defs example_defs ledger_defs)
  have d: "map p_stock (products (snd (deleteSale 1 fullDb))) = [2147483647, 3]"
    by (simp add: fullDb_def ledger_example_defs example_defs ledger_defs)
  have e: "map sa_id (sales (snd (deleteSale 1 fullDb))) = [1]"
    by (simp add: fullDb_def ledger_example_defs example_defs ledger_defs)
  have f: "returned (fst (createSale cashSale (snd (deleteSale 1 fullDb))))"
    by (simp add: fullDb_def ledger_example_defs example_defs ledger_defs)
  have g: "map p_stock (products (snd (createSale cashSale (snd (deleteSale 1 fullDb)))))
        = [2147483637, 2]"
    by (simp add: fullDb_def ledger_example_defs example_defs ledger_defs)
  from b g have h: "products (snd (createSale cashSale (snd (deleteSale 1 fullDb))))
                      \<noteq> products fullDb"
    by auto
  from a b c d e f g h show ?thesis by blast
qed

text \<open>
  C4, amended. Take an existing purchase, and let \<open>deletePurchase\<close> on it and the
  following \<open>createPurchase\<close> with the same line items both return, neither raising on an
  integer out of range. Then the delete returns true and lowers each product's stock by
  what the items passing the guard hold for it, the creation raises each by the same
  amount, and the product table after the two calls is the one before them, row by row.
  For a sale the same holds with the signs exchanged: \<open>deleteSale\<close> raises the stocks and
  \<open>createSale\<close> lowers them.
\<close>

theorem delete_then_recreate:
  "(getPurchase i s = Some p \<and> ip_items x = pu_items p
      \<and> returned (fst (deletePurchase i s))
      \<and> returned (fst (createPurchase x (snd (deletePurchase i s)))) \<longrightarrow>
        fst (deletePurchase i s) = Inr True
      \<and> products (snd (deletePurchase i s))
          = map (\<lambda>r. r\<lparr>p_stock := p_stock r - applied (\<lambda>q. q) (itemsOf (pu_items p)) (p_id r)\<rparr>)
              (products s)
      \<and> products (snd (createPurchase x (snd (deletePurchase i s))))
          = map (\<lambda>r. r\<lparr>p_stock := p_stock r + applied (\<lambda>q. q) (itemsOf (pu_items p)) (p_id r)\<rparr>)
              (products (snd (deletePurchase i s)))
      \<and> products (snd (createPurchase x (snd (deletePurchase i s)))) = products s)
   \<and> (getSale j s = Some y \<and> is_items z = sa_items y
      \<and> returned (fst (deleteSale j s))
      \<and> returned (fst (createSale z (snd (deleteSale j s)))) \<longrightarrow>
        fst (deleteSale j s) = Inr True
      \<and> products (snd (deleteSale j s))
          = map (\<lambda>r. r\<lparr>p_stock := p_stock r + applied (\<lambda>q. q) (itemsOf (sa_items y)) (p_id r)\<rparr>)
              (products s)
      \<and> products (snd (createSale z (snd (deleteSale j s))))
          = map (\<lambda>r. r\<lparr>p_stock := p_stock r - applied (\<lambda>q. q) (itemsOf (sa_items y)) (p_id r)\<rparr>)
              (products (snd (deleteSale j s)))
      \<and> products (snd (createSale z (snd (deleteSale j s)))) = products s)"
proof (intro conjI impI)
  assume h: "getPurchase i s = Some p \<and> ip_items x = pu_items p
      \<and> returned (fst (deletePurchase i s))
      \<and> returned (fst (createPurchase x (snd (deletePurchase i s))))"
  then have f: "find (\<lambda>p. pu_id p = i) (purchases s) = Some p"
    by (simp add: getPurchase_def)
  from h have d: "returned (fst (deletePurchase i s))"
    and c: "returned (fst (createPurchase x (snd (deletePurchase i s))))"
    and it: "ip_items x = pu_items p"
    by simp_all
  note del = deletePurchase_returned [OF f d]
  note cre = createPurchase_returned [OF c]
  show "fst (deletePurchase i s) = Inr True"
    by (simp add: del)
  show dp: "products (snd (deletePurchase i s))
          = map (\<lambda>r. r\<lparr>p_stock := p_stock r - applied (\<lambda>q. q) (itemsOf (pu_items p)) (p_id r)\<rparr>)
              (products s)"
    by (simp add: del applied_minus)
  show cp: "products (snd (createPurchase x (snd (deletePurchase i s))))
          = map (\<lambda>r. r\<lparr>p_stock := p_stock r + applied (\<lambda>q. q) (itemsOf (pu_items p)) (p_id r)\<rparr>)
              (products (snd (deletePurchase i s)))"
    by (simp add: cre it)
  show "products (snd (createPurchase x (snd (deletePurchase i s)))) = products s"
    by (simp add: cp dp o_def map_idI)
next
  assume h: "getSale j s = Some y \<and> is_items z = sa_items y
      \<and> returned (fst (deleteSale j s))
      \<and> returned (fst (createSale z (snd (deleteSale j s))))"
  then have f: "find (\<lambda>x. sa_id x = j) (sales s) = Some y"
    by (simp add: getSale_def)
  from h have d: "returned (fst (deleteSale j s))"
    and c: "returned (fst (createSale z (snd (deleteSale j s))))"
    and it: "is_items z = sa_items y"
    by simp_all
  note del = deleteSale_returned [OF f d]
  note cre = createSale_returned [OF c]
  show "fst (deleteSale j s) = Inr True"
    by (simp add: del)
  show dp: "products (snd (deleteSale j s))
          = map (\<lambda>r. r\<lparr>p_stock := p_stock r + applied (\<lambda>q. q) (itemsOf (sa_items y)) (p_id r)\<rparr>)
              (products s)"
    by (simp add: del)
  show cp: "products (snd (createSale z (snd (deleteSale j s))))
          = map (\<lambda>r. r\<lparr>p_stock := p_stock r - applied (\<lambda>q. q) (itemsOf (sa_items y)) (p_id r)\<rparr>)
              (products (snd (deleteSale j s)))"
    by (simp add: cre it applied_minus)
  show "products (snd (createSale z (snd (deleteSale j s)))) = products s"
    by (simp add: cp dp o_def map_idI)
qed

theorem delete_then_recreate_witness:
  "getPurchase 1 (run_stock_ops shopDb [CreatePurchase restock, CreateSale order])
     = Some \<lparr>pu_id = 1, pu_supplierId = 1, pu_items = ip_items restock\<rparr>
   \<and> returned (fst (deletePurchase 1
        (run_stock_ops shopDb [CreatePurchase restock, CreateSale order])))
   \<and> returned (fst (createPurchase restock (snd (deletePurchase 1
        (run_stock_ops shopDb [CreatePurchase restock, CreateSale order])))))
   \<and> map p_stock (products (run_stock_ops shopDb [CreatePurchase restock, CreateSale order]))
        = [5, 7]
   \<and> map p_stock (products (snd (deletePurchase 1
        (run_stock_ops shopDb [CreatePurchase restock, CreateSale order])))) = [- 15, 3]
   \<and> products (snd (createPurchase restock (snd (deletePurchase 1
        (run_stock_ops shopDb [CreatePurchase restock, CreateSale order])))))
     = products (run_stock_ops shopDb [CreatePurchase restock, CreateSale order])
   \<and> getSale 1 (run_stock_ops shopDb [CreatePurchase restock, CreateSale order])
     = Some \<lparr>sa_id = 1, sa_salespersonId = 1, sa_items = is_items order\<rparr>
   \<and> returned (fst (deleteSale 1
        (run_stock_ops shopDb [CreatePurchase restock, CreateSale order])))
   \<and> returned (fst (createSale order (snd (deleteSale 1
        (run_stock_ops shopDb [CreatePurchase restock, CreateSale order])))))
   \<and> products (snd (createSale order (snd (deleteSale 1
        (run_stock_ops shopDb [CreatePurchase restock, CreateSale order])))))
     = products (run_stock_ops shopDb [CreatePurchase restock, CreateSale order])"
proof -
  let ?s = "run_stock_ops shopDb [CreatePurchase restock, CreateSale order]"
  have h1: "getPurchase 1 ?s = Some \<lparr>pu_id = 1, pu_supplierId = 1, pu_items = ip_items restock\<rparr>"
    by (simp add: getPurchase_def ledger_example_defs example_defs ledger_defs)
  have h2: "getSale 1 ?s = Some \<lparr>sa_id = 1, sa_salespersonId = 1, sa_items = is_items order\<rparr>"
    by (simp add: getSale_def ledger_example_defs example_defs ledger_defs)
  have r1: "returned (fst (deletePurchase 1 ?s))"
    and r2: "returned (fst (createPurchase restock (snd (deletePurchase 1 ?s))))"
    and r3: "returned (fst (deleteSale 1 ?s))"
    and r4: "returned (fst (createSale order (snd (deleteSale 1 ?s))))"
    by (simp_all add: ledger_example_defs example_defs ledger_defs)
  have v1: "map p_stock (products ?s) = [5, 7]"
    and v2: "map p_stock (products (snd (deletePurchase 1 ?s))) = [- 15, 3]"
    by (simp_all add: ledger_example_defs example_defs ledger_defs)
  have e1: "ip_items restock = pu_items \<lparr>pu_id = 1, pu_supplierId = 1, pu_items = ip_items restock\<rparr>"
    and e2: "is_items order = sa_items \<lparr>sa_id = 1, sa_salespersonId = 1, sa_items = is_items order\<rparr>"
    by simp_all
  note round_trip = delete_then_recreate
         [of 1 ?s "\<lparr>pu_id = 1, pu_supplierId = 1, pu_items = ip_items restock\<rparr>" restock
             1 "\<lparr>sa_id = 1, sa_salespersonId = 1, sa_items = is_items order\<rparr>" order]
  from round_trip h1 e1 r1 r2
  have c1: "products (snd (createPurchase restock (snd (deletePurchase 1 ?s)))) = products ?s"
    by blast
  from round_trip h2 e2 r3 r4
  have c2: "products (snd (createSale order (snd (deleteSale 1 ?s)))) = products ?s"
    by blast
  from h1 h2 r1 r2 r3 r4 v1 v2 c1 c2 show ?thesis by blast
qed

section \<open>Missing transactions\<close>

text \<open>
  C9. For an id that resolves to no purchase (respectively no sale), \<open>deletePurchase\<close>
  (respectively \<open>deleteSale\<close>) returns false and the store is left as it was: no row is
  deleted and no product's stock changes.
\<close>

theorem delete_missing_transaction:
  "(getPurchase i s = None \<longrightarrow> deletePurchase i s = (Inr False, s))
   \<and> (getSale j s = None \<longrightarrow> deleteSale j s = (Inr False, s))"
  by (simp add: getPurchase_def getSale_def deletePurchase_def deleteSale_def)

theorem delete_missing_transaction_witness:
  "getPurchase 7 (run_stock_ops shopDb [CreatePurchase restock, CreateSale order]) = None
   \<and> deletePurchase 7 (run_stock_ops shopDb [CreatePurchase restock, CreateSale order])
       = (Inr False, run_stock_ops shopDb [CreatePurchase restock, CreateSale order])
   \<and> getSale 3 (run_stock_ops shopDb [CreatePurchase restock, CreateSale order]) = None
   \<and> deleteSale 3 (run_stock_ops shopDb [CreatePurchase restock, CreateSale order])
       = (Inr False, run_stock_ops shopDb [CreatePurchase restock, CreateSale order])"
proof -
  let ?s = "run_stock_ops shopDb [CreatePurchase restock, CreateSale order]"
  have h1: "getPurchase 7 ?s = None"
    by (simp add: getPurchase_def ledger_example_defs example_defs ledger_defs)
  have h2: "getSale 3 ?s = None"
    by (simp add: getSale_def ledger_example_defs example_defs ledger_defs)
  from delete_missing_transaction [of 7 ?s 3] h1 h2 show ?thesis by simp
qed

section \<open>Low stock\<close>

lemma lowStock_truthy_threshold:
  "t \<noteq> 0 \<Longrightarrow>
   getLowStockProducts (Some t) s = filter (\<lambda>p. p_isActive p \<and> p_stock p \<le> t) (products s)"
  by (simp add: getLowStockProducts_def truthy_def)

lemma lowStock_no_threshold:
  "getLowStockProducts None s =
     filter (\<lambda>p. p_isActive p \<and> (case p_minStock p of None \<Rightarrow> False | Some m \<Rightarrow> p_stock p \<le> m))
       (products s)"
  by (simp add: getLowStockProducts_def)

text \<open>
  C8. With the threshold 0 given, no active product of the example store has stock at or
  below 0, yet \<open>getLowStockProducts\<close> returns the gadget (stock 3, minimum 5): a threshold
  of 0 is answered by the query for an omitted threshold. Every other given threshold and
  the omitted one are answered as the claim says (the two lemmas above).
\<close>

theorem lowStock_zero_threshold:
  "filter (\<lambda>p. p_isActive p \<and> p_stock p \<le> 0) (products shopDb) = []
   \<and> getLowStockProducts (Some 0) shopDb = [gadget]
   \<and> getLowStockProducts (Some 0) shopDb = getLowStockProducts None shopDb"
  by (simp add: getLowStockProducts_def truthy_def example_defs)

section \<open>Default template\<close>

lemma unsetDefaults_ids [simp]:
  "map t_id (invoiceTemplates (unsetDefaults s)) = map t_id (invoiceTemplates s)"
  by (simp add: unsetDefaults_def o_def)

lemma unsetDefaults_seq [simp]:
  "invoiceTemplates_seq (unsetDefaults s) = invoiceTemplates_seq s"
  by (simp add: unsetDefaults_def)

lemma unsetDefaults_none [simp]: "defaultTemplates (unsetDefaults s) = []"
  by (auto simp: unsetDefaults_def defaultTemplates_def filter_empty_conv)

lemma applyTemplateUpdate_id [simp]: "t_id (applyTemplateUpdate u t) = t_id t"
  by (simp add: applyTemplateUpdate_def)

lemma at_most_one_row:
  "distinct (map k xs) \<Longrightarrow> length (filter (\<lambda>x. k x = i) xs) \<le> 1"
proof (induction xs)
  case Nil
  then show ?case by simp
next
  case (Cons x xs)
  show ?case
  proof (cases "k x = i")
    case True
    with Cons.prems have "i \<notin> k ` set xs" by auto
    then have "filter (\<lambda>x. k x = i) xs = []"
      by (auto simp: filter_empty_conv)
    with True show ?thesis by simp
  next
    case False
    with Cons show ?thesis by simp
  qed
qed

lemma create_default_only:
  "it_isDefault x = Some True \<Longrightarrow>
   defaultTemplates (snd (createInvoiceTemplate x s)) = [fst (createInvoiceTemplate x s)]"
  using unsetDefaults_none [of s]
  by (simp add: createInvoiceTemplate_def Let_def defaultTemplates_def)

lemma template_inv_create:
  assumes "template_inv s"
  shows "template_inv (snd (createInvoiceTemplate x s))"
proof (cases "it_isDefault x = Some True")
  case True
  have "map t_id (invoiceTemplates (snd (createInvoiceTemplate x s)))
          = map t_id (invoiceTemplates s) @ [invoiceTemplates_seq s]"
    and "invoiceTemplates_seq (snd (createInvoiceTemplate x s)) = invoiceTemplates_seq s + 1"
    by (simp_all add: createInvoiceTemplate_def Let_def)
  with assms create_default_only [OF True, of s] show ?thesis
    by (auto simp: template_inv_def serial_ok_def list_all_iff)
next
  case False
  with assms show ?thesis
    by (auto simp: template_inv_def createInvoiceTemplate_def Let_def defaultTemplates_def
          serial_ok_def list_all_iff)
qed

lemma filter_default_after_set:
  "\<forall>t\<in>set ts. \<not> t_isDefault t \<Longrightarrow> tu_isDefault u = Some True \<Longrightarrow>
   filter t_isDefault (map (\<lambda>t. if t_id t = i then applyTemplateUpdate u t else t) ts)
     = map (applyTemplateUpdate u) (filter (\<lambda>t. t_id t = i) ts)"
  by (induction ts) (auto simp: applyTemplateUpdate_def)

lemma filter_default_no_increase:
  "tu_isDefault u \<noteq> Some True \<Longrightarrow>
   length (filter t_isDefault (map (\<lambda>t. if t_id t = i then applyTemplateUpdate u t else t) ts))
     \<le> length (filter t_isDefault ts)"
  by (induction ts) (auto simp: applyTemplateUpdate_def split: option.splits)

lemma template_inv_update:
  assumes "template_inv s"
  shows "template_inv (snd (updateInvoiceTemplate i u s))"
proof (cases "tu_isDefault u = Some True")
  case True
  have none: "\<forall>t\<in>set (invoiceTemplates (unsetDefaults s)). \<not> t_isDefault t"
    using unsetDefaults_none [of s] by (simp add: defaultTemplates_def filter_empty_conv)
  from assms have "distinct (map t_id (invoiceTemplates (unsetDefaults s)))"
    by (simp add: template_inv_def serial_ok_def)
  then have "length (filter (\<lambda>t. t_id t = i) (invoiceTemplates (unsetDefaults s))) \<le> 1"
    by (rule at_most_one_row)
  with True assms show ?thesis
    by (simp add: template_inv_def updateInvoiceTemplate_def Let_def defaultTemplates_def
          filter_default_after_set [OF none True] o_def if_distrib cong: if_cong)
next
  case False
  from filter_default_no_increase [OF False, of i "invoiceTemplates s"] False assms
  show ?thesis
    by (simp add: template_inv_def updateInvoiceTemplate_def Let_def defaultTemplates_def
          o_def if_distrib cong: if_cong)
qed

lemma template_inv_run:
  "template_inv s \<Longrightarrow> template_inv (run_template_ops s ops)"
  unfolding run_template_ops_def
proof (induction ops arbitrary: s)
  case Nil
  then show ?case by simp
next
  case (Cons op ops)
  from Cons.prems have "template_inv (template_step s op)"
    by (cases op) (simp_all add: template_inv_create template_inv_update)
  then show ?case by (simp add: Cons.IH)
qed

lemmas template_defs = createInvoiceTemplate_def updateInvoiceTemplate_def unsetDefaults_def
  applyTemplateUpdate_def defaultTemplates_def getInvoiceTemplate_def
  getDefaultInvoiceTemplate_def Let_def

lemmas template_example_defs = templateDb_def templateOps_def classic_def modern_def plain_def
  makeDefault_def

text \<open>
  C2. From a template table with \<^verbatim>\<open>serial\<close> ids and at most one default row, any
  sequence of \<open>createInvoiceTemplate\<close> and \<open>updateInvoiceTemplate\<close> calls, applied one
  after the other, leaves at most one default row. In particular, after two creations with
  \<open>isDefault\<close> true, the default rows are exactly the second created row.
\<close>

theorem single_default_template:
  assumes "serial_ok (map t_id (invoiceTemplates s)) (invoiceTemplates_seq s)"
    and "length (defaultTemplates s) \<le> 1"
  shows "length (defaultTemplates (run_template_ops s ops)) \<le> 1
    \<and> (it_isDefault a = Some True \<and> it_isDefault b = Some True \<longrightarrow>
         defaultTemplates
           (snd (createInvoiceTemplate b (snd (createInvoiceTemplate a (run_template_ops s ops)))))
         = [fst (createInvoiceTemplate b (snd (createInvoiceTemplate a (run_template_ops s ops))))])"
  using template_inv_run [of s ops] assms
  by (simp add: template_inv_def create_default_only)

theorem single_default_template_witness:
  "serial_ok (map t_id (invoiceTemplates templateDb)) (invoiceTemplates_seq templateDb)
   \<and> map t_id (defaultTemplates templateDb) = [1]
   \<and> length (defaultTemplates (run_template_ops templateDb templateOps)) \<le> 1
   \<and> map t_id (defaultTemplates (run_template_ops templateDb templateOps)) = [2]
   \<and> it_isDefault classic = Some True \<and> it_isDefault modern = Some True
   \<and> defaultTemplates
       (snd (createInvoiceTemplate modern
          (snd (createInvoiceTemplate classic (run_template_ops templateDb templateOps)))))
     = [fst (createInvoiceTemplate modern
          (snd (createInvoiceTemplate classic (run_template_ops templateDb templateOps))))]
   \<and> map t_id (defaultTemplates
       (snd (createInvoiceTemplate modern
          (snd (createInvoiceTemplate classic (run_template_ops templateDb templateOps)))))) = [5]"
proof -
  have h1: "serial_ok (map t_id (invoiceTemplates templateDb)) (invoiceTemplates_seq templateDb)"
    by (simp add: serial_ok_def template_example_defs template_defs example_defs)
  have d: "map t_id (defaultTemplates templateDb) = [1]"
    by (simp add: template_example_defs template_defs example_defs)
  then have h2: "length (defaultTemplates templateDb) \<le> 1"
    using length_map [of t_id "defaultTemplates templateDb"] by simp
  have a: "it_isDefault classic = Some True" and b: "it_isDefault modern = Some True"
    by (simp_all add: classic_def modern_def)
  have v1: "map t_id (defaultTemplates (run_template_ops templateDb templateOps)) = [2]"
    by (simp add: run_template_ops_def template_example_defs template_defs example_defs)
  have v2: "map t_id (defaultTemplates
       (snd (createInvoiceTemplate modern
          (snd (createInvoiceTemplate classic (run_template_ops templateDb templateOps)))))) = [5]"
    by (simp add: run_template_ops_def template_example_defs template_defs example_defs)
  from single_default_template [OF h1 h2, of templateOps classic modern] a b
  have "length (defaultTemplates (run_template_ops templateDb templateOps)) \<le> 1"
    and "defaultTemplates
       (snd (createInvoiceTemplate modern
          (snd (createInvoiceTemplate classic (run_template_ops templateDb templateOps)))))
     = [fst (createInvoiceTemplate modern
          (snd (createInvoiceTemplate classic (run_template_ops templateDb templateOps))))]"
    by simp_all
  with h1 d a b v1 v2 show ?thesis by blast
qed

text \<open>
  C10. \<open>updateInvoiceTemplate\<close> with \<open>isDefault\<close> true for an id that resolves to no
  template returns an absent result, and the store it leaves is the one in which every
  template's default flag is cleared: no default template remains.
\<close>

theorem update_missing_template_clears_default:
  assumes "getInvoiceTemplate i s = None" and "tu_isDefault u = Some True"
  shows "updateInvoiceTemplate i u s = (None, unsetDefaults s)
    \<and> invoiceTemplates (unsetDefaults s)
        = map (\<lambda>t. t\<lparr>t_isDefault := False\<rparr>) (invoiceTemplates s)
    \<and> defaultTemplates (unsetDefaults s) = []
    \<and> getDefaultInvoiceTemplate (unsetDefaults s) = None"
proof -
  from assms(1) have noid: "\<forall>t\<in>set (invoiceTemplates (unsetDefaults s)). t_id t \<noteq> i"
    by (auto simp: getInvoiceTemplate_def find_None_iff unsetDefaults_def)
  then have same: "map (\<lambda>t. if t_id t = i then applyTemplateUpdate u t else t)
           (invoiceTemplates (unsetDefaults s)) = invoiceTemplates (unsetDefaults s)"
    by (simp add: map_idI)
  have "find (\<lambda>t. t_id t = i) (invoiceTemplates (unsetDefaults s)) = None"
    using noid by (simp add: find_None_iff)
  with same assms(2) have "updateInvoiceTemplate i u s = (None, unsetDefaults s)"
    by (simp add: updateInvoiceTemplate_def Let_def)
  moreover have "invoiceTemplates (unsetDefaults s)
        = map (\<lambda>t. t\<lparr>t_isDefault := False\<rparr>) (invoiceTemplates s)"
    by (simp add: unsetDefaults_def)
  moreover have "getDefaultInvoiceTemplate (unsetDefaults s) = None"
    using unsetDefaults_none [of s]
    by (simp add: getDefaultInvoiceTemplate_def defaultTemplates_def find_None_iff
          filter_empty_conv)
  ultimately show ?thesis by simp
qed

theorem update_missing_template_clears_default_witness:
  "getInvoiceTemplate 9 templateDb = None \<and> tu_isDefault makeDefault = Some True
   \<and> map t_isDefault (invoiceTemplates templateDb) = [True, False]
   \<and> fst (updateInvoiceTemplate 9 makeDefault templateDb) = None
   \<and> map t_isDefault (invoiceTemplates (snd (updateInvoiceTemplate 9 makeDefault templateDb)))
       = [False, False]
   \<and> getDefaultInvoiceTemplate (snd (updateInvoiceTemplate 9 makeDefault templateDb)) = None"
proof -
  have h1: "getInvoiceTemplate 9 templateDb = None"
    by (simp add: template_example_defs template_defs example_defs)
  have h2: "tu_isDefault makeDefault = Some True"
    by (simp add: makeDefault_def)
  have before: "map t_isDefault (invoiceTemplates templateDb) = [True, False]"
    by (simp add: template_example_defs template_defs example_defs)
  from update_missing_template_clears_default [OF h1 h2]
  have r: "updateInvoiceTemplate 9 makeDefault templateDb = (None, unsetDefaults templateDb)"
    and g: "getDefaultInvoiceTemplate (unsetDefaults templateDb) = None"
    by simp_all
  have "map t_isDefault (invoiceTemplates (unsetDefaults templateDb)) = [False, False]"
    by (simp add: template_example_defs template_defs example_defs)
  with h1 h2 before r g show ?thesis by simp
qed

section \<open>Approval workflow\<close>

lemma applyRequestUpdate_id [simp]: "ar_id (applyRequestUpdate u r) = ar_id r"
  by (simp add: applyRequestUpdate_def)

lemma applyRequestUpdate_status:
  "au_status u = Some st \<Longrightarrow> ar_status (applyRequestUpdate u r) = st"
  by (simp add: applyRequestUpdate_def)

text \<open>The row read back after the update is the looked-up row with the update applied.\<close>

lemma find_updated_row:
  "find (\<lambda>r. ar_id r = i) rs = Some r0 \<Longrightarrow>
   find (\<lambda>r. ar_id r = i) (map (\<lambda>r. if ar_id r = i then applyRequestUpdate u r else r) rs)
     = Some (applyRequestUpdate u r0)"
  by (induction rs) (auto split: if_splits)

lemmas approval_defs = createApprovalRequest_def updateApprovalRequest_def
  applyRequestUpdate_def approveEntity_def getApprovalRequest_def Let_def

lemmas approval_example_defs = pendingDb_def vendorRequest_def supplierRequest_def
  vendorRow_def supplierRow_def approve_def reject_def

lemma pendingDb_requests: "approvalRequests pendingDb = [vendorRow, supplierRow]"
  by (simp add: approval_example_defs approval_defs example_defs)

text \<open>
  C6. Whatever the caller supplies, a \<open>status\<close> key included, \<open>createApprovalRequest\<close>
  appends one row to the table and that row, which it returns, has status pending. An
  input accepted by \<open>insertApprovalRequestSchema\<close> carries no status.
\<close>

theorem created_request_is_pending:
  "ar_status (fst (createApprovalRequest x s)) = ''pending''
   \<and> approvalRequests (snd (createApprovalRequest x s))
        = approvalRequests s @ [fst (createApprovalRequest x s)]
   \<and> (insertApprovalRequestSchema raw = Some y \<longrightarrow> ia_status y = None)"
  by (auto simp: createApprovalRequest_def Let_def insertApprovalRequestSchema_def
        split: option.splits)

theorem created_request_is_pending_witness:
  "ia_status vendorRequest = Some ''approved''
   \<and> ar_status (fst (createApprovalRequest vendorRequest shopDb)) = ''pending''
   \<and> approvalRequests (snd (createApprovalRequest vendorRequest shopDb))
        = approvalRequests shopDb @ [fst (createApprovalRequest vendorRequest shopDb)]
   \<and> insertApprovalRequestSchema
        \<lparr>raw_id = Some 40, raw_entityType = Some ''vendor'', raw_entityId = Some 2,
         raw_requestedBy = Some 1, raw_status = Some ''approved'', raw_notes = None\<rparr>
      = Some \<lparr>ia_entityType = ''vendor'', ia_entityId = 2, ia_requestedBy = 1,
              ia_notes = None, ia_status = None\<rparr>
   \<and> ia_status \<lparr>ia_entityType = ''vendor'', ia_entityId = 2, ia_requestedBy = 1,
                 ia_notes = None, ia_status = None\<rparr> = None"
proof -
  have h: "insertApprovalRequestSchema
        \<lparr>raw_id = Some 40, raw_entityType = Some ''vendor'', raw_entityId = Some 2,
         raw_requestedBy = Some 1, raw_status = Some ''approved'', raw_notes = None\<rparr>
      = Some \<lparr>ia_entityType = ''vendor'', ia_entityId = 2, ia_requestedBy = 1,
              ia_notes = None, ia_status = None\<rparr>"
    by (simp add: insertApprovalRequestSchema_def)
  have c: "ia_status vendorRequest = Some ''approved''"
    by (simp add: vendorRequest_def)
  from created_request_is_pending
         [of vendorRequest shopDb
             "\<lparr>raw_id = Some 40, raw_entityType = Some ''vendor'', raw_entityId = Some 2,
               raw_requestedBy = Some 1, raw_status = Some ''approved'', raw_notes = None\<rparr>"
             "\<lparr>ia_entityType = ''vendor'', ia_entityId = 2, ia_requestedBy = 1,
               ia_notes = None, ia_status = None\<rparr>"]
       h c
  show ?thesis by blast
qed

text \<open>
  C5. Take an existing approval request whose entity type, as read back after the update,
  is vendor. Deciding it as approved changes the approval-request table and sets
  \<open>isApproved\<close> on the vendor rows whose id is the request's \<open>entityId\<close>; every other
  vendor row and every other table stay as they were. Deciding it as rejected changes the
  approval-request table only.
\<close>

theorem vendor_decision_frame:
  assumes "getApprovalRequest i s = Some r0"
    and "ar_entityType (applyRequestUpdate u r0) = ''vendor''"
  shows "(au_status u = Some ''approved'' \<longrightarrow>
            updateApprovalRequest i u s =
              (Some (applyRequestUpdate u r0),
               s\<lparr>approvalRequests :=
                    map (\<lambda>r. if ar_id r = i then applyRequestUpdate u r else r) (approvalRequests s),
                 vendors :=
                    map (\<lambda>v. if e_id v = ar_entityId (applyRequestUpdate u r0)
                              then v\<lparr>e_isApproved := True\<rparr> else v) (vendors s)\<rparr>))
       \<and> (au_status u = Some ''rejected'' \<longrightarrow>
            updateApprovalRequest i u s =
              (Some (applyRequestUpdate u r0),
               s\<lparr>approvalRequests :=
                    map (\<lambda>r. if ar_id r = i then applyRequestUpdate u r else r) (approvalRequests s)\<rparr>))"
  using assms
  by (simp add: getApprovalRequest_def updateApprovalRequest_def Let_def find_updated_row
        approveEntity_def)

theorem vendor_decision_frame_witness:
  "getApprovalRequest 1 pendingDb = Some vendorRow
   \<and> ar_entityType (applyRequestUpdate approve vendorRow) = ''vendor''
   \<and> ar_entityType (applyRequestUpdate reject vendorRow) = ''vendor''
   \<and> au_status approve = Some ''approved'' \<and> au_status reject = Some ''rejected''
   \<and> vendors pendingDb = [acme, bolt]
   \<and> vendors (snd (updateApprovalRequest 1 approve pendingDb))
        = [acme, bolt\<lparr>e_isApproved := True\<rparr>]
   \<and> distributors (snd (updateApprovalRequest 1 approve pendingDb)) = [acme, bolt]
   \<and> vendors (snd (updateApprovalRequest 1 reject pendingDb)) = [acme, bolt]
   \<and> map ar_status (approvalRequests (snd (updateApprovalRequest 1 reject pendingDb)))
        = [''rejected'', ''pending'']"
proof -
  have h1: "getApprovalRequest 1 pendingDb = Some vendorRow"
    by (simp add: getApprovalRequest_def pendingDb_requests) (simp add: vendorRow_def)
  have h2: "ar_entityType (applyRequestUpdate approve vendorRow) = ''vendor''"
    and h3: "ar_entityType (applyRequestUpdate reject vendorRow) = ''vendor''"
    by (simp_all add: applyRequestUpdate_def approve_def reject_def vendorRow_def)
  have a: "au_status approve = Some ''approved''" and r: "au_status reject = Some ''rejected''"
    by (simp_all add: approve_def reject_def)
  have tbl: "vendors pendingDb = [acme, bolt]" "distributors pendingDb = [acme, bolt]"
    by (simp_all add: approval_example_defs approval_defs shopDb_def)
  from vendor_decision_frame [OF h1 h2] a
  have ra: "updateApprovalRequest 1 approve pendingDb =
              (Some (applyRequestUpdate approve vendorRow),
               pendingDb\<lparr>approvalRequests :=
                    map (\<lambda>r. if ar_id r = 1 then applyRequestUpdate approve r else r)
                      (approvalRequests pendingDb),
                 vendors :=
                    map (\<lambda>v. if e_id v = ar_entityId (applyRequestUpdate approve vendorRow)
                              then v\<lparr>e_isApproved := True\<rparr> else v) (vendors pendingDb)\<rparr>)"
    by simp
  from vendor_decision_frame [OF h1 h3] r
  have rr: "updateApprovalRequest 1 reject pendingDb =
              (Some (applyRequestUpdate reject vendorRow),
               pendingDb\<lparr>approvalRequests :=
                    map (\<lambda>r. if ar_id r = 1 then applyRequestUpdate reject r else r)
                      (approvalRequests pendingDb)\<rparr>)"
    by simp
  have v1: "vendors (snd (updateApprovalRequest 1 approve pendingDb))
        = [acme, bolt\<lparr>e_isApproved := True\<rparr>]"
    by (simp only: ra snd_conv)
       (simp add: tbl applyRequestUpdate_def approve_def vendorRow_def acme_def bolt_def)
  have v2: "distributors (snd (updateApprovalRequest 1 approve pendingDb)) = [acme, bolt]"
    by (simp add: ra tbl)
  have v3: "vendors (snd (updateApprovalRequest 1 reject pendingDb)) = [acme, bolt]"
    by (simp add: rr tbl)
  have v4: "map ar_status (approvalRequests (snd (updateApprovalRequest 1 reject pendingDb)))
        = [''rejected'', ''pending'']"
    by (simp only: rr snd_conv)
       (simp add: pendingDb_requests applyRequestUpdate_def reject_def vendorRow_def
          supplierRow_def)
  from h1 h2 h3 a r tbl(1) v1 v2 v3 v4 show ?thesis by blast
qed

text \<open>
  C7. Take an existing approval request whose entity type, as read back after the update,
  is none of vendor, distributor, retailer and billedEntity. Deciding it as approved
  returns the updated request, whose status is approved, and changes the approval-request
  table only: no partner row is touched, and the call has no failing branch.
\<close>

theorem unknown_entity_type_ignored:
  assumes "getApprovalRequest i s = Some r0"
    and "au_status u = Some ''approved''"
    and "ar_entityType (applyRequestUpdate u r0)
           \<notin> {''vendor'', ''distributor'', ''retailer'', ''billedEntity''}"
  shows "updateApprovalRequest i u s =
           (Some (applyRequestUpdate u r0),
            s\<lparr>approvalRequests :=
                 map (\<lambda>r. if ar_id r = i then applyRequestUpdate u r else r) (approvalRequests s)\<rparr>)
         \<and> ar_status (applyRequestUpdate u r0) = ''approved''"
  using assms
  by (simp add: getApprovalRequest_def updateApprovalRequest_def Let_def find_updated_row
        applyRequestUpdate_status)

theorem unknown_entity_type_ignored_witness:
  "getApprovalRequest 2 pendingDb = Some supplierRow
   \<and> au_status approve = Some ''approved''
   \<and> ar_entityType (applyRequestUpdate approve supplierRow) = ''supplier''
   \<and> fst (updateApprovalRequest 2 approve pendingDb) = Some (supplierRow\<lparr>ar_status := ''approved''\<rparr>)
   \<and> suppliers (snd (updateApprovalRequest 2 approve pendingDb)) = [acme, bolt]
   \<and> vendors (snd (updateApprovalRequest 2 approve pendingDb)) = [acme, bolt]
   \<and> map ar_status (approvalRequests (snd (updateApprovalRequest 2 approve pendingDb)))
        = [''pending'', ''approved'']"
proof -
  have h1: "getApprovalRequest 2 pendingDb = Some supplierRow"
    by (simp add: getApprovalRequest_def pendingDb_requests) (simp add: vendorRow_def supplierRow_def)
  have h2: "au_status approve = Some ''approved''"
    by (simp add: approve_def)
  have ty: "ar_entityType (applyRequestUpdate approve supplierRow) = ''supplier''"
    by (simp add: applyRequestUpdate_def approve_def supplierRow_def)
  then have h3: "ar_entityType (applyRequestUpdate approve supplierRow)
           \<notin> {''vendor'', ''distributor'', ''retailer'', ''billedEntity''}"
    by simp
  have tbl: "vendors pendingDb = [acme, bolt]" "suppliers pendingDb = [acme, bolt]"
    by (simp_all add: approval_example_defs approval_defs shopDb_def)
  have row: "applyRequestUpdate approve supplierRow = supplierRow\<lparr>ar_status := ''approved''\<rparr>"
    by (simp add: applyRequestUpdate_def approve_def supplierRow_def)
  from unknown_entity_type_ignored [OF h1 h2 h3]
  have res: "updateApprovalRequest 2 approve pendingDb =
           (Some (applyRequestUpdate approve supplierRow),
            pendingDb\<lparr>approvalRequests :=
                 map (\<lambda>r. if ar_id r = 2 then applyRequestUpdate approve r else r)
                   (approvalRequests pendingDb)\<rparr>)"
    by simp
  have v1: "fst (updateApprovalRequest 2 approve pendingDb)
              = Some (supplierRow\<lparr>ar_status := ''approved''\<rparr>)"
    by (simp add: res row)
  have v2: "suppliers (snd (updateApprovalRequest 2 approve pendingDb)) = [acme, bolt]"
    and v3: "vendors (snd (updateApprovalRequest 2 approve pendingDb)) = [acme, bolt]"
    by (simp_all add: res tbl)
  have v4: "map ar_status (approvalRequests (snd (updateApprovalRequest 2 approve pendingDb)))
        = [''pending'', ''approved'']"
    by (simp only: res snd_conv)
       (simp add: pendingDb_requests applyRequestUpdate_def approve_def vendorRow_def
          supplierRow_def)
  from h1 h2 ty v1 v2 v3 v4 show ?thesis by blast
qed

text \<open>
  C3, as claimed, fails: request 1 of the example store is decided approved and then
  decided rejected, and its status goes from approved to rejected.
\<close>

theorem approved_request_can_be_rejected:
  "map ar_status (approvalRequests (snd (updateApprovalRequest 1 approve pendingDb)))
     = [''approved'', ''pending'']
   \<and> map ar_status (approvalRequests
        (snd (updateApprovalRequest 1 reject (snd (updateApprovalRequest 1 approve pendingDb)))))
     = [''rejected'', ''pending'']"
  by (simp add: approval_example_defs approval_defs example_defs)

text \<open>
  C3, amended. A decide call with target status \<open>st\<close> on an existing approval request
  returns the request with status \<open>st\<close> and stores it so, whatever the status was before:
  the update has no guard on the current status, so approved and rejected are not terminal.
\<close>

theorem decide_overwrites_status:
  assumes "getApprovalRequest i s = Some r0" and "au_status u = Some st"
  shows "fst (updateApprovalRequest i u s) = Some (applyRequestUpdate u r0)
         \<and> getApprovalRequest i (snd (updateApprovalRequest i u s))
             = Some (applyRequestUpdate u r0)
         \<and> ar_status (applyRequestUpdate u r0) = st"
  using assms
  by (simp add: getApprovalRequest_def updateApprovalRequest_def Let_def find_updated_row
        applyRequestUpdate_status)

theorem decide_overwrites_status_witness:
  "getApprovalRequest 1 (snd (updateApprovalRequest 1 approve pendingDb))
     = Some (vendorRow\<lparr>ar_status := ''approved''\<rparr>)
   \<and> au_status reject = Some ''rejected''
   \<and> fst (updateApprovalRequest 1 reject (snd (updateApprovalRequest 1 approve pendingDb)))
       = Some (vendorRow\<lparr>ar_status := ''rejected''\<rparr>)
   \<and> getApprovalRequest 1
        (snd (updateApprovalRequest 1 reject (snd (updateApprovalRequest 1 approve pendingDb))))
       = Some (vendorRow\<lparr>ar_status := ''rejected''\<rparr>)"
proof -
  let ?s = "snd (updateApprovalRequest 1 approve pendingDb)"
  have h1: "getApprovalRequest 1 ?s = Some (vendorRow\<lparr>ar_status := ''approved''\<rparr>)"
    by (simp add: approval_example_defs approval_defs example_defs)
  have h2: "au_status reject = Some ''rejected''"
    by (simp add: reject_def)
  have row: "applyRequestUpdate reject (vendorRow\<lparr>ar_status := ''approved''\<rparr>)
               = vendorRow\<lparr>ar_status := ''rejected''\<rparr>"
    by (simp add: applyRequestUpdate_def reject_def vendorRow_def)
  from decide_overwrites_status [OF h1 h2] h1 h2 show ?thesis
    by (simp add: row)
qed

end
